theory Spec2Isabelle
  imports Complex_Main
begin

section \<open>Python values used by the plotting scripts\<close>

text \<open>
  The scripts \<^verbatim>\<open>video_loss/video_loss.py\<close> and \<^verbatim>\<open>video_loss/video_loss2.py\<close> read a CSV
  table, sort LPIPS scores into per-video lists by packet-loss band, average the lists and
  hand the averages to matplotlib. \<^verbatim>\<open>lpips_token/lpips_token.py\<close> classifies loss rates
  with \<^verbatim>\<open>classify_loss_rate\<close>.

  Conventions of the embedding:
  \<^item> a Python \<^verbatim>\<open>str\<close> is a \<^typ>\<open>string\<close> (ASCII text);
  \<^item> a Python \<^verbatim>\<open>float\<close> is the \<^typ>\<open>real\<close> it stands for. \<^verbatim>\<open>generate_lpips_plot\<close> parses
    floats, compares them with literals and averages them, and the embedding does this
    exactly: there the rounding of IEEE doubles is not represented. \<^verbatim>\<open>classify_loss_rate\<close>
    subtracts before it compares, which decides the edge of a band, so its embedding rounds
    every literal and the difference to the nearest double (\<open>double\<close> below). The
    non-finite values \<^verbatim>\<open>inf\<close> and \<^verbatim>\<open>nan\<close> are not represented;
  \<^item> the builtin \<^verbatim>\<open>float(s)\<close> is a parameter \<open>pyfloat :: string \<Rightarrow> real option\<close> of the
    pipeline, \<open>None\<close> standing for \<^verbatim>\<open>ValueError\<close>; general theorems hold for every such
    parser, concrete runs use \<open>decimal_float\<close> below;
  \<^item> the argument of \<^verbatim>\<open>generate_lpips_plot\<close> is the list of rows that \<^verbatim>\<open>csv.reader\<close>
    yields for \<^verbatim>\<open>csv_data_string\<close>, the header row first and a blank line as \<open>[]\<close>;
  \<^item> \<^verbatim>\<open>print\<close> appends a \<open>message\<close> to the list of printed lines;
  \<^item> styling, axis labels and the saving of the figure belong to matplotlib and stop at
    the two lists of averages passed to \<^verbatim>\<open>ax.bar\<close>.
\<close>

subsection \<open>Strings\<close>

text \<open>\<^verbatim>\<open>str.strip()\<close>: the ASCII characters for which \<^verbatim>\<open>str.isspace\<close> holds are
  TAB, LF, VT, FF, CR, FS, GS, RS, US and the space.\<close>

definition is_space :: "char \<Rightarrow> bool" where
  "is_space c = (let n = (of_char c :: nat) in (9 \<le> n \<and> n \<le> 13) \<or> (28 \<le> n \<and> n \<le> 32))"

definition py_strip :: "string \<Rightarrow> string" where
  "py_strip s = rev (dropWhile is_space (rev (dropWhile is_space s)))"

text \<open>\<^verbatim>\<open>s.replace('"', '')\<close>: every double quote (character 0x22) is deleted.\<close>

definition remove_quotes :: "string \<Rightarrow> string" where
  "remove_quotes s = filter (\<lambda>c. c \<noteq> CHR 0x22) s"

text \<open>\<^verbatim>\<open>list.index(y)\<close>: the position of the first element equal to \<open>y\<close>; \<open>None\<close> is
  \<^verbatim>\<open>ValueError\<close>.\<close>

fun py_index :: "'a list \<Rightarrow> 'a \<Rightarrow> nat option" where
  "py_index [] y = None"
| "py_index (x # xs) y = (if x = y then Some 0 else map_option Suc (py_index xs y))"

subsection \<open>A decimal reading of \<^verbatim>\<open>float\<close> for concrete runs\<close>

text \<open>
  \<open>decimal_float\<close> reads the plain decimal literals \<^verbatim>\<open>[+-]digits[.digits]\<close> and
  \<^verbatim>\<open>[+-].digits\<close>, surrounded by optional white space, exactly (as a rational). On these
  literals Python's \<^verbatim>\<open>float\<close> returns the nearest double. It is used only to run the
  pipeline on example tables; exponents, underscores, \<^verbatim>\<open>inf\<close> and \<^verbatim>\<open>nan\<close> are outside
  its fragment and do not occur in the examples.
\<close>

definition is_digit :: "char \<Rightarrow> bool" where
  "is_digit c = (let n = (of_char c :: nat) in 48 \<le> n \<and> n \<le> 57)"

definition digits_value :: "string \<Rightarrow> nat" where
  "digits_value ds = foldl (\<lambda>a c. 10 * a + (of_char c - 48)) 0 ds"

definition unsigned_decimal :: "string \<Rightarrow> real option" where
  "unsigned_decimal u =
     (let ip = takeWhile is_digit u; rest = dropWhile is_digit u in
      case rest of
        [] \<Rightarrow> if ip = [] then None else Some (real (digits_value ip))
      | c # fp \<Rightarrow>
          if c = CHR ''.'' \<and> list_all is_digit fp \<and> (ip \<noteq> [] \<or> fp \<noteq> [])
          then Some (real (digits_value ip) + real (digits_value fp) / 10 ^ length fp)
          else None)"

definition decimal_float :: "string \<Rightarrow> real option" where
  "decimal_float s =
     (case py_strip s of
        [] \<Rightarrow> None
      | c # r \<Rightarrow>
          if c = CHR ''-'' then map_option uminus (unsigned_decimal r)
          else if c = CHR ''+'' then unsigned_decimal r
          else unsigned_decimal (c # r))"

subsection \<open>IEEE doubles\<close>

text \<open>
  A finite double (binary64) is an integer multiple \<open>m * 2 ^ e\<close> with \<open>|m| < 2 ^ 53\<close> and
  \<open>e \<ge> -1074\<close>. \<open>double y\<close> is the double nearest to the real \<open>y\<close>, the tie going to the
  even multiple: \<open>ulp_exponent y\<close> is the exponent of the spacing of the doubles around
  \<open>y\<close> (52 binary places below the leading bit, and never below \<open>-1074\<close>), and \<open>y\<close> is
  rounded to a multiple of that spacing. A literal such as \<^verbatim>\<open>0.05\<close> is \<open>double 0.05\<close>, and
  the difference of two floats is \<open>double\<close> of the exact difference. Overflow is not
  represented; \<open>is_double\<close> holds of the reals that are finite doubles.
\<close>

definition round_half_even :: "real \<Rightarrow> int" where
  "round_half_even r =
     (let n = \<lfloor>r\<rfloor>; f = r - of_int n in
      if f < 1 / 2 then n
      else if 1 / 2 < f then n + 1
      else if even n then n else n + 1)"




section \<open>\<^verbatim>\<open>lpips_token.py\<close>: the loss-rate classifier\<close>


section \<open>\<^verbatim>\<open>video_loss.py\<close> and \<^verbatim>\<open>video_loss2.py\<close>: \<^verbatim>\<open>generate_lpips_plot\<close>\<close>

text \<open>
  The two files hold the same function up to three literals: the list
  \<^verbatim>\<open>target_video_names\<close>, the test of the second loss band and the name of that band's
  key. The embedding takes the first two as the parameters \<open>targets\<close> and \<open>band\<close> and
  instantiates them for each file at the end of this section.
\<close>

subsection \<open>Data\<close>

text \<open>The keys of the inner dictionaries: \<^verbatim>\<open>"0%_loss"\<close>, and \<^verbatim>\<open>"20%_loss"\<close>
  (\<^verbatim>\<open>"0_5_loss"\<close> in \<^verbatim>\<open>video_loss2.py\<close>).\<close>

datatype loss_key = Loss_0 | Loss_band

text \<open>The lines the function prints.\<close>

datatype message =
    Error_csv_empty
      \<comment> \<open>\<^verbatim>\<open>Error: CSV data is empty.\<close>\<close>
  | Error_header
      \<comment> \<open>\<^verbatim>\<open>Error: CSV header does not contain required columns: 'lpips', 'avg_packet_loss', 'video'.\<close>\<close>
  | Found_header "string list"
      \<comment> \<open>\<^verbatim>\<open>Found header: {header}\<close>\<close>
  | Warning_fallback nat nat nat
      \<comment> \<open>\<^verbatim>\<open>Warning: Using fallback column indices: lpips=.., avg_packet_loss=.., video=..\<close>\<close>
  | Warning_columns nat "string list"
      \<comment> \<open>\<^verbatim>\<open>Warning: Row {n} has an unexpected number of columns. Skipping: {row}\<close>\<close>
  | Warning_parse nat string "string list"
      \<comment> \<open>\<^verbatim>\<open>Warning: Could not parse data in row {n}. Error: {e}. Skipping: {row}\<close>, with the
         string that \<^verbatim>\<open>float\<close> rejected standing for \<^verbatim>\<open>e\<close>\<close>
  | Info_no_data string loss_key
      \<comment> \<open>\<^verbatim>\<open>Info: No data for {video_name} with 0% packet loss.\<close> and its second-band twin\<close>
  | Error_no_data
      \<comment> \<open>\<^verbatim>\<open>Error: No data found for the specified videos and packet loss conditions. Cannot generate plot.\<close>\<close>

record columns =
  lpips_col_idx :: nat
  avg_loss_col_idx :: nat
  video_col_idx :: nat

text \<open>\<^verbatim>\<open>parsed_data = defaultdict(lambda: {"0%_loss": [], "20%_loss": []})\<close>: a dictionary
  from video names to the two lists; reading a missing key stores and returns a fresh
  entry.\<close>

type_synonym loss_lists = "loss_key \<Rightarrow> real list"

type_synonym parsed = "string \<rightharpoonup> loss_lists"

definition new_entry :: loss_lists where
  "new_entry = (\<lambda>k. [])"

definition lookup :: "parsed \<Rightarrow> string \<Rightarrow> loss_lists" where
  "lookup pd v = (case pd v of None \<Rightarrow> new_entry | Some e \<Rightarrow> e)"

definition touch :: "parsed \<Rightarrow> string \<Rightarrow> parsed" where
  "touch pd v = pd(v \<mapsto> lookup pd v)"

definition append_value :: "parsed \<Rightarrow> string \<Rightarrow> loss_key \<Rightarrow> real \<Rightarrow> parsed" where
  "append_value pd v k x = pd(v \<mapsto> (lookup pd v)(k := lookup pd v k @ [x]))"

record run_state =
  parsed_data :: parsed
  printed :: "message list"

record plot_data =
  lpips_0_loss_avg :: "real list"
  lpips_band_loss_avg :: "real list"

text \<open>What a call leaves behind: the printed lines, and the averages given to
  \<^verbatim>\<open>ax.bar\<close> when the function gets as far as plotting.\<close>

record outcome =
  stdout :: "message list"
  chart :: "plot_data option"

subsection \<open>Column indices from the header\<close>

text \<open>
  \<^verbatim>\<open>
  try:
      lpips_col_idx = header.index("lpips")
      avg_loss_col_idx = header.index("avg_packet_loss")
      video_col_idx = header.index("video")
  except ValueError:
      print("Error: CSV header does not contain required columns: ...")
      print(f"Found header: {header}")
      lpips_col_idx = 6
      avg_loss_col_idx = 8
      video_col_idx = 13
      print(f"Warning: Using fallback column indices: ...")
  \<close>
\<close>

definition fallback_columns :: columns where
  "fallback_columns = \<lparr>lpips_col_idx = 6, avg_loss_col_idx = 8, video_col_idx = 13\<rparr>"

definition fallback_messages :: "string list \<Rightarrow> message list" where
  "fallback_messages header = [Error_header, Found_header header, Warning_fallback 6 8 13]"

definition column_indices :: "string list \<Rightarrow> columns \<times> message list" where
  "column_indices header =
     (case py_index header ''lpips'' of
        None \<Rightarrow> (fallback_columns, fallback_messages header)
      | Some l \<Rightarrow>
     (case py_index header ''avg_packet_loss'' of
        None \<Rightarrow> (fallback_columns, fallback_messages header)
      | Some a \<Rightarrow>
     (case py_index header ''video'' of
        None \<Rightarrow> (fallback_columns, fallback_messages header)
      | Some v \<Rightarrow>
          (\<lparr>lpips_col_idx = l, avg_loss_col_idx = a, video_col_idx = v\<rparr>, []))))"

subsection \<open>The row loop\<close>

text \<open>The exceptions the body of the \<^verbatim>\<open>try\<close> can raise: \<^verbatim>\<open>row[i]\<close> past the end of the row,
  and \<^verbatim>\<open>float\<close> on a string it rejects.\<close>

datatype row_error = IndexError | ValueError string

definition py_get :: "string list \<Rightarrow> nat \<Rightarrow> row_error + string" where
  "py_get row i = (if i < length row then Inr (row ! i) else Inl IndexError)"

definition to_float :: "(string \<Rightarrow> real option) \<Rightarrow> string \<Rightarrow> row_error + real" where
  "to_float pyfloat s = (case pyfloat s of None \<Rightarrow> Inl (ValueError s) | Some x \<Rightarrow> Inr x)"

text \<open>
  \<^verbatim>\<open>
  if avg_loss == 0.0:
      parsed_data[video_name]["0%_loss"].append(lpips)
  elif 0.15 <= avg_loss <= 0.25:
      parsed_data[video_name]["20%_loss"].append(lpips)
  \<close>
  \<open>loss_category\<close> is the list this chain selects, \<open>None\<close> when neither branch is taken.
\<close>

definition loss_category :: "(real \<Rightarrow> bool) \<Rightarrow> real \<Rightarrow> loss_key option" where
  "loss_category band avg_loss =
     (if avg_loss = 0 then Some Loss_0
      else if band avg_loss then Some Loss_band
      else None)"

text \<open>
  The body of the \<^verbatim>\<open>try\<close>, in the order Python evaluates it:
  \<^verbatim>\<open>
  video_name = row[video_col_idx].strip().replace('"', '')
  if video_name in target_video_names:
      lpips = float(row[lpips_col_idx])
      avg_loss_str = row[avg_loss_col_idx].strip().replace('"', '')
      avg_loss = float(avg_loss_str)
      ... the chain above ...
  \<close>
\<close>

definition row_body ::
  "(string \<Rightarrow> real option) \<Rightarrow> string list \<Rightarrow> (real \<Rightarrow> bool) \<Rightarrow> columns \<Rightarrow>
   string list \<Rightarrow> parsed \<Rightarrow> row_error + parsed" where
  "row_body pyfloat targets band cols row pd =
     (case py_get row (video_col_idx cols) of
        Inl e \<Rightarrow> Inl e
      | Inr video_field \<Rightarrow>
          let video_name = remove_quotes (py_strip video_field) in
          if video_name \<in> set targets then
            (case py_get row (lpips_col_idx cols) of
               Inl e \<Rightarrow> Inl e
             | Inr lpips_field \<Rightarrow>
            (case to_float pyfloat lpips_field of
               Inl e \<Rightarrow> Inl e
             | Inr lpips \<Rightarrow>
            (case py_get row (avg_loss_col_idx cols) of
               Inl e \<Rightarrow> Inl e
             | Inr avg_loss_field \<Rightarrow>
            (case to_float pyfloat (remove_quotes (py_strip avg_loss_field)) of
               Inl e \<Rightarrow> Inl e
             | Inr avg_loss \<Rightarrow>
            (case loss_category band avg_loss of
               None \<Rightarrow> Inr pd
             | Some k \<Rightarrow> Inr (append_value pd video_name k lpips))))))
          else Inr pd)"

text \<open>
  One round of \<^verbatim>\<open>for row_number, row in enumerate(reader, 1)\<close>: an empty row is passed
  over, the two handlers print a warning with \<^verbatim>\<open>row_number+1\<close> and go on. The third
  handler (\<^verbatim>\<open>except Exception\<close>) has nothing to catch: the body raises nothing else.
\<close>

definition process_row ::
  "(string \<Rightarrow> real option) \<Rightarrow> string list \<Rightarrow> (real \<Rightarrow> bool) \<Rightarrow> columns \<Rightarrow>
   nat \<Rightarrow> string list \<Rightarrow> run_state \<Rightarrow> run_state" where
  "process_row pyfloat targets band cols row_number row st =
     (if row = [] then st
      else
        case row_body pyfloat targets band cols row (parsed_data st) of
          Inr pd \<Rightarrow> st\<lparr>parsed_data := pd\<rparr>
        | Inl IndexError \<Rightarrow>
            st\<lparr>printed := printed st @ [Warning_columns (row_number + 1) row]\<rparr>
        | Inl (ValueError s) \<Rightarrow>
            st\<lparr>printed := printed st @ [Warning_parse (row_number + 1) s row]\<rparr>)"

fun process_rows ::
  "(string \<Rightarrow> real option) \<Rightarrow> string list \<Rightarrow> (real \<Rightarrow> bool) \<Rightarrow> columns \<Rightarrow>
   nat \<Rightarrow> string list list \<Rightarrow> run_state \<Rightarrow> run_state" where
  "process_rows pyfloat targets band cols row_number [] st = st"
| "process_rows pyfloat targets band cols row_number (row # rows) st =
     process_rows pyfloat targets band cols (Suc row_number) rows
       (process_row pyfloat targets band cols row_number row st)"

subsection \<open>Averages\<close>

text \<open>\<^verbatim>\<open>np.mean\<close> of a list.\<close>

definition np_mean :: "real list \<Rightarrow> real" where
  "np_mean xs = sum_list xs / real (length xs)"

text \<open>
  \<^verbatim>\<open>
  data_0_loss = parsed_data[video_name]["0%_loss"]
  if data_0_loss:
      plot_data["lpips_0_loss_avg"].append(np.mean(data_0_loss))
  else:
      plot_data["lpips_0_loss_avg"].append(0)
      print(f"Info: No data for {video_name} with 0% packet loss.")
  \<close>
  and the same for the second band. \<open>average_key\<close> is the value appended and the lines
  printed for one list.
\<close>

definition average_key :: "string \<Rightarrow> loss_key \<Rightarrow> real list \<Rightarrow> real \<times> message list" where
  "average_key video_name k xs =
     (if xs \<noteq> [] then (np_mean xs, []) else (0, [Info_no_data video_name k]))"

definition average_video :: "string \<Rightarrow> run_state \<times> plot_data \<Rightarrow> run_state \<times> plot_data" where
  "average_video video_name sp =
     (let st = fst sp; plot = snd sp;
          pd = touch (parsed_data st) video_name;
          a0 = average_key video_name Loss_0 (lookup pd video_name Loss_0);
          a1 = average_key video_name Loss_band (lookup pd video_name Loss_band)
      in (st\<lparr>parsed_data := pd, printed := printed st @ snd a0 @ snd a1\<rparr>,
          plot\<lparr>lpips_0_loss_avg := lpips_0_loss_avg plot @ [fst a0],
               lpips_band_loss_avg := lpips_band_loss_avg plot @ [fst a1]\<rparr>))"

text \<open>\<^verbatim>\<open>for video_name in target_video_names\<close>.\<close>

fun average_videos :: "string list \<Rightarrow> run_state \<times> plot_data \<Rightarrow> run_state \<times> plot_data" where
  "average_videos [] sp = sp"
| "average_videos (video_name # rest) sp = average_videos rest (average_video video_name sp)"

definition empty_plot :: plot_data where
  "empty_plot = \<lparr>lpips_0_loss_avg = [], lpips_band_loss_avg = []\<rparr>"

text \<open>\<^verbatim>\<open>any(xs)\<close> on a list of numbers: some element is not zero.\<close>

definition py_any :: "real list \<Rightarrow> bool" where
  "py_any xs = list_ex (\<lambda>x. x \<noteq> 0) xs"

subsection \<open>The function\<close>

text \<open>The two loops once the column indices are known: the row loop from a fresh
  \<^verbatim>\<open>parsed_data\<close>, with \<open>msgs\<close> printed so far, then the averaging loop from a fresh
  \<^verbatim>\<open>plot_data\<close>.\<close>

definition averaged_rows ::
  "(string \<Rightarrow> real option) \<Rightarrow> string list \<Rightarrow> (real \<Rightarrow> bool) \<Rightarrow> columns \<Rightarrow>
   message list \<Rightarrow> string list list \<Rightarrow> run_state \<times> plot_data" where
  "averaged_rows pyfloat targets band cols msgs rows =
     average_videos targets
       (process_rows pyfloat targets band cols 1 rows
          \<lparr>parsed_data = Map.empty, printed = msgs\<rparr>,
        empty_plot)"

text \<open>
  \<^verbatim>\<open>
  if not any(plot_data["lpips_0_loss_avg"]) and not any(plot_data["lpips_20_loss_avg"]):
      print("Error: No data found ...")
      return
  \<close>
  and the plot otherwise.
\<close>

definition plot_rows ::
  "(string \<Rightarrow> real option) \<Rightarrow> string list \<Rightarrow> (real \<Rightarrow> bool) \<Rightarrow> columns \<Rightarrow>
   message list \<Rightarrow> string list list \<Rightarrow> outcome" where
  "plot_rows pyfloat targets band cols msgs rows =
     (let sp = averaged_rows pyfloat targets band cols msgs rows
      in if \<not> py_any (lpips_0_loss_avg (snd sp)) \<and> \<not> py_any (lpips_band_loss_avg (snd sp))
         then \<lparr>stdout = printed (fst sp) @ [Error_no_data], chart = None\<rparr>
         else \<lparr>stdout = printed (fst sp), chart = Some (snd sp)\<rparr>)"

text \<open>\<^verbatim>\<open>header = next(reader)\<close> raises \<^verbatim>\<open>StopIteration\<close> when the reader yields no row:
  the function prints the error and returns.\<close>

definition lpips_plot ::
  "(string \<Rightarrow> real option) \<Rightarrow> string list \<Rightarrow> (real \<Rightarrow> bool) \<Rightarrow> string list list \<Rightarrow> outcome" where
  "lpips_plot pyfloat targets band csv =
     (case csv of
        [] \<Rightarrow> \<lparr>stdout = [Error_csv_empty], chart = None\<rparr>
      | header # rows \<Rightarrow>
          plot_rows pyfloat targets band (fst (column_indices header))
            (snd (column_indices header)) rows)"

text \<open>\<^verbatim>\<open>video_loss.py\<close>: eight videos, second band \<^verbatim>\<open>0.15 <= avg_loss <= 0.25\<close>.\<close>

definition target_video_names :: "string list" where
  "target_video_names =
     [''video-0.mp4'', ''video-1.mp4'', ''video-2.mp4'',
      ''video-4.mp4'', ''video-5.mp4'', ''video-6.mp4'',
      ''video-7.mp4'', ''video-9.mp4'']"

definition band_20 :: "real \<Rightarrow> bool" where
  "band_20 avg_loss = (0.15 \<le> avg_loss \<and> avg_loss \<le> 0.25)"

definition generate_lpips_plot :: "(string \<Rightarrow> real option) \<Rightarrow> string list list \<Rightarrow> outcome" where
  "generate_lpips_plot pyfloat csv = lpips_plot pyfloat target_video_names band_20 csv"

text \<open>\<^verbatim>\<open>video_loss2.py\<close>: \<^verbatim>\<open>[f"video-{i}.mp4" for i in range(9)]\<close>, second band
  \<^verbatim>\<open>0.0 < avg_loss <= 0.05\<close>.\<close>

definition target_video_names2 :: "string list" where
  "target_video_names2 =
     [''video-0.mp4'', ''video-1.mp4'', ''video-2.mp4'',
      ''video-3.mp4'', ''video-4.mp4'', ''video-5.mp4'',
      ''video-6.mp4'', ''video-7.mp4'', ''video-8.mp4'']"

definition band_0_5 :: "real \<Rightarrow> bool" where
  "band_0_5 avg_loss = (0 < avg_loss \<and> avg_loss \<le> 0.05)"

definition generate_lpips_plot2 :: "(string \<Rightarrow> real option) \<Rightarrow> string list list \<Rightarrow> outcome" where
  "generate_lpips_plot2 pyfloat csv = lpips_plot pyfloat target_video_names2 band_0_5 csv"

subsection \<open>Two calls in a row\<close>



section \<open>Vocabulary of the specification\<close>

text \<open>
  The specification speaks of a row's group, loss fraction and metric, of the rows that
  contribute to a (group, condition) cell, and of malformed rows. These definitions read
  the three fields of a row the way the row loop does and are compared with the loop in
  the next section.
\<close>

definition has_fields :: "columns \<Rightarrow> string list \<Rightarrow> bool" where
  "has_fields cols row =
     (video_col_idx cols < length row \<and> lpips_col_idx cols < length row \<and>
      avg_loss_col_idx cols < length row)"

definition group_of :: "columns \<Rightarrow> string list \<Rightarrow> string" where
  "group_of cols row = remove_quotes (py_strip (row ! video_col_idx cols))"

definition metric_of :: "(string \<Rightarrow> real option) \<Rightarrow> columns \<Rightarrow> string list \<Rightarrow> real option" where
  "metric_of pyfloat cols row = pyfloat (row ! lpips_col_idx cols)"

definition loss_of :: "(string \<Rightarrow> real option) \<Rightarrow> columns \<Rightarrow> string list \<Rightarrow> real option" where
  "loss_of pyfloat cols row = pyfloat (remove_quotes (py_strip (row ! avg_loss_col_idx cols)))"

text \<open>The condition of a row: the band its loss fraction falls in, if it has one.\<close>

definition condition_of ::
  "(string \<Rightarrow> real option) \<Rightarrow> (real \<Rightarrow> bool) \<Rightarrow> columns \<Rightarrow> string list \<Rightarrow> loss_key option" where
  "condition_of pyfloat band cols row =
     (case loss_of pyfloat cols row of None \<Rightarrow> None | Some x \<Rightarrow> loss_category band x)"

text \<open>A row contributes to the cell \<open>(v, k)\<close> when it has the three fields, its group is
  \<open>v\<close>, a group of interest, its metric is a number and its condition is \<open>k\<close>.\<close>

definition contributes ::
  "(string \<Rightarrow> real option) \<Rightarrow> string list \<Rightarrow> (real \<Rightarrow> bool) \<Rightarrow> columns \<Rightarrow>
   string \<Rightarrow> loss_key \<Rightarrow> string list \<Rightarrow> bool" where
  "contributes pyfloat targets band cols v k row =
     (has_fields cols row \<and> group_of cols row = v \<and> v \<in> set targets \<and>
      metric_of pyfloat cols row \<noteq> None \<and> condition_of pyfloat band cols row = Some k)"

definition cell_rows ::
  "(string \<Rightarrow> real option) \<Rightarrow> string list \<Rightarrow> (real \<Rightarrow> bool) \<Rightarrow> columns \<Rightarrow>
   string \<Rightarrow> loss_key \<Rightarrow> string list list \<Rightarrow> string list list" where
  "cell_rows pyfloat targets band cols v k rows =
     filter (contributes pyfloat targets band cols v k) rows"

definition cell_values ::
  "(string \<Rightarrow> real option) \<Rightarrow> string list \<Rightarrow> (real \<Rightarrow> bool) \<Rightarrow> columns \<Rightarrow>
   string \<Rightarrow> loss_key \<Rightarrow> string list list \<Rightarrow> real list" where
  "cell_values pyfloat targets band cols v k rows =
     map (\<lambda>row. the (metric_of pyfloat cols row)) (cell_rows pyfloat targets band cols v k rows)"

text \<open>A malformed row: not blank, and one of the three fields is missing, or the metric
  or the loss field is not a number.\<close>

definition malformed :: "(string \<Rightarrow> real option) \<Rightarrow> columns \<Rightarrow> string list \<Rightarrow> bool" where
  "malformed pyfloat cols row =
     (row \<noteq> [] \<and>
      (\<not> has_fields cols row \<or> metric_of pyfloat cols row = None \<or>
       loss_of pyfloat cols row = None))"

text \<open>A row of another group: its group field is there and names no group of interest.\<close>

definition other_group :: "string list \<Rightarrow> columns \<Rightarrow> string list \<Rightarrow> bool" where
  "other_group targets cols row =
     (video_col_idx cols < length row \<and> group_of cols row \<notin> set targets)"

text \<open>The aggregate of a table with a header row: the \<^verbatim>\<open>plot_data\<close> that the averaging loop
  has built, whether or not it is plotted afterwards.\<close>

definition aggregate ::
  "(string \<Rightarrow> real option) \<Rightarrow> string list \<Rightarrow> (real \<Rightarrow> bool) \<Rightarrow> string list \<Rightarrow>
   string list list \<Rightarrow> plot_data" where
  "aggregate pyfloat targets band header rows =
     snd (averaged_rows pyfloat targets band (fst (column_indices header))
            (snd (column_indices header)) rows)"

text \<open>The two lists of \<open>plot_data\<close> by key, the row warnings among the printed lines, and the
  number of values held for the target videos.\<close>

definition averages :: "loss_key \<Rightarrow> plot_data \<Rightarrow> real list" where
  "averages k plot = (case k of Loss_0 \<Rightarrow> lpips_0_loss_avg plot | Loss_band \<Rightarrow> lpips_band_loss_avg plot)"

definition is_row_warning :: "message \<Rightarrow> bool" where
  "is_row_warning m =
     (case m of Warning_columns n row \<Rightarrow> True | Warning_parse n s row \<Rightarrow> True | _ \<Rightarrow> False)"

definition row_warnings :: "message list \<Rightarrow> message list" where
  "row_warnings msgs = filter is_row_warning msgs"

definition ingested :: "string list \<Rightarrow> parsed \<Rightarrow> nat" where
  "ingested targets pd =
     sum_list (map (\<lambda>v. length (lookup pd v Loss_0) + length (lookup pd v Loss_band)) targets)"

section \<open>Example tables\<close>

text \<open>A table whose header names none of the three columns, with one data row that holds
  a metric, a loss fraction and a video name at the positions 6, 8 and 13.\<close>

definition fallback_table :: "string list list" where
  "fallback_table =
     [[''a'', ''b'', ''c'', ''d'', ''e'', ''f'', ''score'', ''h'', ''loss'', ''j'', ''k'', ''l'',
       ''m'', ''clip''],
      [''x'', ''x'', ''x'', ''x'', ''x'', ''x'', ''0.5'', ''x'', ''0.0'', ''x'', ''x'', ''x'',
       ''x'', ''video-0.mp4'']]"

text \<open>The table of the specification's worked example.\<close>

definition spec_table :: "string list list" where
  "spec_table =
     [[''video'', ''avg_packet_loss'', ''lpips''],
      [''video-0.mp4'', ''0.0'', ''0.10''],
      [''video-0.mp4'', ''0.20'', ''0.30''],
      [''video-1.mp4'', ''0.0'', ''0.15'']]"

text \<open>One data row: video-0.mp4 at loss 0, so that no row reaches the second band.\<close>

definition single_row_table :: "string list list" where
  "single_row_table =
     [[''video'', ''avg_packet_loss'', ''lpips''],
      [''video-0.mp4'', ''0.0'', ''0.10'']]"

text \<open>The columns in another order; three rows of video-2.mp4 in the second band, one of
  them with blanks around the name, one row at loss 0, one outside both bands, and one
  row of another video.\<close>

definition mean_table :: "string list list" where
  "mean_table =
     [[''lpips'', ''video'', ''avg_packet_loss''],
      [''1.0'', ''video-2.mp4'', ''0.15''],
      [''7.5'', ''video-2.mp4'', ''0''],
      [''2.0'', ''video-4.mp4'', ''0.2''],
      [''2.0'', '' video-2.mp4 '', ''0.2''],
      [''3.0'', ''video-2.mp4'', ''0.25''],
      [''9.0'', ''video-2.mp4'', ''0.3'']]"

text \<open>A row of video-3.mp4, which is not among the target videos of \<^verbatim>\<open>video_loss.py\<close>,
  with fields that are not numbers.\<close>

definition other_group_table :: "string list list" where
  "other_group_table =
     [[''video'', ''avg_packet_loss'', ''lpips''],
      [''video-0.mp4'', ''0.0'', ''0.25''],
      [''video-3.mp4'', ''oops'', ''n/a''],
      [''video-0.mp4'', ''0.2'', ''0.75'']]"

text \<open>Ten data rows of target videos with loss fractions inside the bands; the third has
  a metric and the seventh a loss fraction that is not a number.\<close>

definition ten_row_table :: "string list list" where
  "ten_row_table =
     [[''video'', ''avg_packet_loss'', ''lpips''],
      [''video-0.mp4'', ''0.0'', ''0.10''],
      [''video-0.mp4'', ''0.20'', ''0.30''],
      [''video-1.mp4'', ''0.0'', ''abc''],
      [''video-1.mp4'', ''0.0'', ''0.15''],
      [''video-1.mp4'', ''0.15'', ''0.35''],
      [''video-2.mp4'', ''0.0'', ''0.20''],
      [''video-2.mp4'', ''n/a'', ''0.40''],
      [''video-2.mp4'', ''0.25'', ''0.45''],
      [''video-4.mp4'', ''0.0'', ''0.05''],
      [''video-4.mp4'', ''0.2'', ''0.50'']]"

text \<open>A table without a header line: two data rows.\<close>

definition headerless_table :: "string list list" where
  "headerless_table =
     [[''video-0.mp4'', ''0.0'', ''0.10''],
      [''video-1.mp4'', ''0.0'', ''0.15'']]"

section \<open>Properties\<close>

subsection \<open>The row loop fills each list with the values of its cell\<close>

lemma py_index_None: "py_index xs y = None \<longleftrightarrow> y \<notin> set xs"
  by (induction xs) auto

lemma lookup_touch: "lookup (touch pd v) u = lookup pd u"
  by (simp add: touch_def lookup_def)

lemma lookup_append_value:
  "lookup (append_value pd v k x) u j =
     lookup pd u j @ (if u = v \<and> j = k then [x] else [])"
  by (simp add: append_value_def lookup_def)

lemma row_body_Inr:
  "row_body pyfloat targets band cols row pd = Inr pd' \<Longrightarrow>
   lookup pd' v k = lookup pd v k @
     (if contributes pyfloat targets band cols v k row
      then [the (metric_of pyfloat cols row)] else [])"
  by (auto simp: row_body_def py_get_def to_float_def contributes_def has_fields_def
      group_of_def metric_of_def loss_of_def condition_of_def lookup_append_value Let_def
      split: if_splits option.splits sum.splits)

lemma row_body_Inl:
  "row_body pyfloat targets band cols row pd = Inl e \<Longrightarrow>
   \<not> contributes pyfloat targets band cols v k row"
  by (auto simp: row_body_def py_get_def to_float_def contributes_def has_fields_def
      group_of_def metric_of_def loss_of_def condition_of_def Let_def
      split: if_splits option.splits sum.splits)

lemma contributes_nonempty: "contributes pyfloat targets band cols v k row \<Longrightarrow> row \<noteq> []"
  by (auto simp: contributes_def has_fields_def)

lemma lookup_process_row:
  "lookup (parsed_data (process_row pyfloat targets band cols n row st)) v k =
   lookup (parsed_data st) v k @
     (if contributes pyfloat targets band cols v k row
      then [the (metric_of pyfloat cols row)] else [])"
proof (cases "row = []")
  case True
  then show ?thesis
    using contributes_nonempty [of pyfloat targets band cols v k row]
    by (auto simp: process_row_def)
next
  case False
  show ?thesis
  proof (cases "row_body pyfloat targets band cols row (parsed_data st)")
    case (Inl e)
    with False row_body_Inl [OF Inl, of v k] show ?thesis
      by (cases e) (simp_all add: process_row_def)
  next
    case (Inr pd')
    with False row_body_Inr [OF Inr, of v k] show ?thesis
      by (simp add: process_row_def)
  qed
qed

lemma lookup_process_rows:
  "lookup (parsed_data (process_rows pyfloat targets band cols n rows st)) v k =
   lookup (parsed_data st) v k @ cell_values pyfloat targets band cols v k rows"
proof (induction rows arbitrary: n st)
  case Nil
  then show ?case by (simp add: cell_values_def cell_rows_def)
next
  case (Cons row rows)
  then show ?case
    by (simp add: lookup_process_row cell_values_def cell_rows_def)
qed


subsection \<open>The averaging loop\<close>

lemma average_videos_parsed:
  "lookup (parsed_data (fst (average_videos targets sp))) u = lookup (parsed_data (fst sp)) u"
  by (induction targets arbitrary: sp) (simp_all add: average_video_def Let_def lookup_touch)

lemma average_video_averages:
  "averages k (snd (average_video v sp)) =
   averages k (snd sp) @ [fst (average_key v k (lookup (parsed_data (fst sp)) v k))]"
  by (cases k) (simp_all add: averages_def average_video_def Let_def lookup_touch)

lemma average_videos_averages:
  "averages k (snd (average_videos targets sp)) =
   averages k (snd sp) @
     map (\<lambda>v. fst (average_key v k (lookup (parsed_data (fst sp)) v k))) targets"
proof (induction targets arbitrary: sp)
  case Nil
  then show ?case by simp
next
  case (Cons v targets)
  have "lookup (parsed_data (fst (average_video v sp))) u = lookup (parsed_data (fst sp)) u" for u
    by (simp add: average_video_def Let_def lookup_touch)
  then show ?case
    by (simp add: Cons.IH average_video_averages)
qed

lemma average_video_printed:
  "printed (fst (average_video v sp)) =
   printed (fst sp) @ snd (average_key v Loss_0 (lookup (parsed_data (fst sp)) v Loss_0))
     @ snd (average_key v Loss_band (lookup (parsed_data (fst sp)) v Loss_band))"
  by (simp add: average_video_def Let_def lookup_touch)

lemma average_videos_printed:
  "printed (fst (average_videos targets sp)) =
   printed (fst sp) @
     concat (map (\<lambda>v. snd (average_key v Loss_0 (lookup (parsed_data (fst sp)) v Loss_0))
       @ snd (average_key v Loss_band (lookup (parsed_data (fst sp)) v Loss_band))) targets)"
proof (induction targets arbitrary: sp)
  case Nil
  then show ?case by simp
next
  case (Cons v targets)
  have "lookup (parsed_data (fst (average_video v sp))) u = lookup (parsed_data (fst sp)) u" for u
    by (simp add: average_video_def Let_def lookup_touch)
  then show ?case
    by (simp add: Cons.IH average_video_printed)
qed

subsection \<open>Printed lines are only ever appended\<close>

lemma process_row_printed:
  "\<exists>ws. printed (process_row pyfloat targets band cols n row st) = printed st @ ws"
  by (auto simp: process_row_def split: sum.splits row_error.splits)

lemma process_rows_printed:
  "\<exists>ws. printed (process_rows pyfloat targets band cols n rows st) = printed st @ ws"
proof (induction rows arbitrary: n st)
  case Nil
  then show ?case by simp
next
  case (Cons row rows)
  obtain w1 where "printed (process_row pyfloat targets band cols n row st) = printed st @ w1"
    using process_row_printed by blast
  moreover obtain w2 where
    "printed (process_rows pyfloat targets band cols (Suc n) rows
        (process_row pyfloat targets band cols n row st)) =
     printed (process_row pyfloat targets band cols n row st) @ w2"
    using Cons.IH by blast
  ultimately show ?case by simp
qed

lemma plot_rows_stdout_prefix:
  "take (length msgs) (stdout (plot_rows pyfloat targets band cols msgs rows)) = msgs"
proof -
  obtain ws where
    "printed (process_rows pyfloat targets band cols 1 rows
        \<lparr>parsed_data = Map.empty, printed = msgs\<rparr>) = msgs @ ws"
    using process_rows_printed [of pyfloat targets band cols 1 rows "\<lparr>parsed_data = Map.empty, printed = msgs\<rparr>"]
    by auto
  then show ?thesis
    by (simp add: plot_rows_def averaged_rows_def Let_def average_videos_printed)
qed

subsection \<open>Rounding to doubles\<close>







lemma round_half_even_of_int [simp]: "round_half_even (of_int n) = n"
  by (simp add: round_half_even_def)

lemma round_half_even_0 [simp]: "round_half_even 0 = 0"
  using round_half_even_of_int [of 0] by simp












subsection \<open>Classification of loss fractions\<close>













subsection \<open>Headers that lack a column name\<close>

lemma column_indices_fallback:
  "''lpips'' \<notin> set header \<or> ''avg_packet_loss'' \<notin> set header \<or> ''video'' \<notin> set header \<Longrightarrow>
   column_indices header = (fallback_columns, fallback_messages header)"
  by (auto simp: column_indices_def py_index_None [symmetric] split: option.splits)

text \<open>
  Claim C10: if any one of the three names is absent from the header, all three indices
  are the fixed positions 6, 8 and 13, whatever the positions of the names that are
  present.
\<close>

theorem fallback_all_or_nothing:
  assumes "''lpips'' \<notin> set header \<or> ''avg_packet_loss'' \<notin> set header \<or> ''video'' \<notin> set header"
  shows "fst (column_indices header) =
           \<lparr>lpips_col_idx = 6, avg_loss_col_idx = 8, video_col_idx = 13\<rparr>"
  using column_indices_fallback [OF assms] by (simp add: fallback_columns_def)

text \<open>The header \<^verbatim>\<open>["video", "lpips"]\<close> names two of the columns, at positions 0 and 1;
  the indices used are 13 and 6.\<close>

theorem fallback_all_or_nothing_witness:
  "py_index [''video'', ''lpips''] ''lpips'' = Some 1 \<and>
   py_index [''video'', ''lpips''] ''video'' = Some 0 \<and>
   ''avg_packet_loss'' \<notin> set [''video'', ''lpips''] \<and>
   fst (column_indices [''video'', ''lpips'']) =
     \<lparr>lpips_col_idx = 6, avg_loss_col_idx = 8, video_col_idx = 13\<rparr>"
  using fallback_all_or_nothing [of "[''video'', ''lpips'']"] by simp

text \<open>
  Claim C4 lets the run fail with a schema error unless the caller supplies fallback
  positions. The function has no such parameter and no such failure: on
  \<open>fallback_table\<close>, whose header has none of the names, it prints the error and the
  warning, reads the data row at the fixed positions and plots its value.
\<close>

theorem fallback_run_counterexample:
  "''lpips'' \<notin> set (hd fallback_table) \<and>
   generate_lpips_plot decimal_float fallback_table =
     \<lparr>stdout =
        [Error_header, Found_header (hd fallback_table), Warning_fallback 6 8 13,
         Info_no_data ''video-0.mp4'' Loss_band,
         Info_no_data ''video-1.mp4'' Loss_0, Info_no_data ''video-1.mp4'' Loss_band,
         Info_no_data ''video-2.mp4'' Loss_0, Info_no_data ''video-2.mp4'' Loss_band,
         Info_no_data ''video-4.mp4'' Loss_0, Info_no_data ''video-4.mp4'' Loss_band,
         Info_no_data ''video-5.mp4'' Loss_0, Info_no_data ''video-5.mp4'' Loss_band,
         Info_no_data ''video-6.mp4'' Loss_0, Info_no_data ''video-6.mp4'' Loss_band,
         Info_no_data ''video-7.mp4'' Loss_0, Info_no_data ''video-7.mp4'' Loss_band,
         Info_no_data ''video-9.mp4'' Loss_0, Info_no_data ''video-9.mp4'' Loss_band],
      chart = Some \<lparr>lpips_0_loss_avg = [0.5, 0, 0, 0, 0, 0, 0, 0],
                     lpips_band_loss_avg = [0, 0, 0, 0, 0, 0, 0, 0]\<rparr>\<rparr>"
  by code_simp

text \<open>
  Claim C4, amended: for every input whose header lacks a required column name the run
  does not fail. It prints the header error, the header it found and a warning with the
  fixed positions 6, 8 and 13 before anything else, and goes on to read the rows at
  these positions; the fallback is built into the function and is always logged.
\<close>

theorem missing_header_field_falls_back:
  assumes "''lpips'' \<notin> set header \<or> ''avg_packet_loss'' \<notin> set header \<or> ''video'' \<notin> set header"
  shows "lpips_plot pyfloat targets band (header # rows) =
           plot_rows pyfloat targets band
             \<lparr>lpips_col_idx = 6, avg_loss_col_idx = 8, video_col_idx = 13\<rparr>
             [Error_header, Found_header header, Warning_fallback 6 8 13] rows \<and>
         take 3 (stdout (lpips_plot pyfloat targets band (header # rows))) =
           [Error_header, Found_header header, Warning_fallback 6 8 13]"
proof -
  have eq: "lpips_plot pyfloat targets band (header # rows) =
           plot_rows pyfloat targets band
             \<lparr>lpips_col_idx = 6, avg_loss_col_idx = 8, video_col_idx = 13\<rparr>
             [Error_header, Found_header header, Warning_fallback 6 8 13] rows"
    using column_indices_fallback [OF assms]
    by (simp add: lpips_plot_def fallback_columns_def fallback_messages_def)
  show ?thesis
    using plot_rows_stdout_prefix [of "[Error_header, Found_header header, Warning_fallback 6 8 13]"
        pyfloat targets band "\<lparr>lpips_col_idx = 6, avg_loss_col_idx = 8, video_col_idx = 13\<rparr>" rows]
    by (simp add: eq numeral_3_eq_3)
qed

theorem missing_header_field_falls_back_witness:
  "''lpips'' \<notin> set (hd fallback_table) \<and>
   take 3 (stdout (lpips_plot decimal_float target_video_names band_20 fallback_table)) =
     [Error_header, Found_header (hd fallback_table), Warning_fallback 6 8 13]"
proof -
  have h: "''lpips'' \<notin> set (hd fallback_table)"
    by (simp add: fallback_table_def)
  have t: "hd fallback_table # tl fallback_table = fallback_table"
    by (simp add: fallback_table_def)
  have "take 3 (stdout (lpips_plot decimal_float target_video_names band_20
          (hd fallback_table # tl fallback_table))) =
        [Error_header, Found_header (hd fallback_table), Warning_fallback 6 8 13]"
    using missing_header_field_falls_back [of "hd fallback_table"] h by blast
  then show ?thesis
    unfolding t using h by blast
qed

subsection \<open>Cells and their averages\<close>

lemma lookup_empty: "lookup Map.empty v k = []"
  by (simp add: lookup_def new_entry_def)

lemma averages_empty_plot: "averages k empty_plot = []"
  by (cases k) (simp_all add: averages_def empty_plot_def)

lemma averaged_rows_averages:
  "averages k (snd (averaged_rows pyfloat targets band cols msgs rows)) =
   map (\<lambda>v. fst (average_key v k (cell_values pyfloat targets band cols v k rows))) targets"
  by (simp add: averaged_rows_def average_videos_averages averages_empty_plot
      lookup_process_rows lookup_empty)

lemma chart_aggregate:
  "chart (lpips_plot pyfloat targets band (header # rows)) = Some plot \<Longrightarrow>
   plot = aggregate pyfloat targets band header rows"
  by (auto simp: lpips_plot_def plot_rows_def aggregate_def Let_def split: if_splits)

lemma plot_rows_info:
  assumes "v \<in> set targets" and "cell_values pyfloat targets band cols v k rows = []"
  shows "Info_no_data v k \<in> set (stdout (plot_rows pyfloat targets band cols msgs rows))"
proof -
  let ?st = "process_rows pyfloat targets band cols 1 rows
               \<lparr>parsed_data = Map.empty, printed = msgs\<rparr>"
  have "lookup (parsed_data ?st) v k = []"
    using assms(2) by (simp add: lookup_process_rows lookup_empty)
  then have "Info_no_data v k \<in> set (snd (average_key v k (lookup (parsed_data ?st) v k)))"
    by (simp add: average_key_def)
  then have "Info_no_data v k \<in> set (printed (fst (average_videos targets (?st, empty_plot))))"
    using assms(1) by (cases k) (auto simp: average_videos_printed)
  then show ?thesis
    by (simp add: plot_rows_def averaged_rows_def Let_def)
qed

text \<open>
  Claim C1 wants a cell without contributing rows reported as missing and never as the
  number 0. The averaging loop appends the number 0 (\<^verbatim>\<open>append(0)\<close>, "Use 0 if no data") and
  has no other value for such a cell: in \<open>single_row_table\<close> no row contributes to
  (video-0.mp4, second band), and the list of second-band averages holds 0 at position 0.
\<close>

theorem empty_cell_counterexample:
  "cell_rows decimal_float target_video_names band_20
     (fst (column_indices (hd single_row_table))) ''video-0.mp4'' Loss_band
     (tl single_row_table) = [] \<and>
   map_option (\<lambda>plot. lpips_band_loss_avg plot ! 0)
     (chart (generate_lpips_plot decimal_float single_row_table)) = Some 0"
  by code_simp

text \<open>
  Claim C1, amended: for every target video and condition with zero contributing rows,
  the function prints the informational note naming that video and condition, and the
  value it puts into the list of averages for that cell is the number 0.
\<close>

theorem empty_cell_reports_zero:
  assumes "i < length targets"
    and "cell_rows pyfloat targets band (fst (column_indices header)) (targets ! i) k rows = []"
  shows "Info_no_data (targets ! i) k \<in>
           set (stdout (lpips_plot pyfloat targets band (header # rows))) \<and>
         averages k (aggregate pyfloat targets band header rows) ! i = 0 \<and>
         (\<forall>plot. chart (lpips_plot pyfloat targets band (header # rows)) = Some plot \<longrightarrow>
            plot = aggregate pyfloat targets band header rows)"
proof -
  have cv: "cell_values pyfloat targets band (fst (column_indices header)) (targets ! i) k rows = []"
    using assms(2) by (simp add: cell_values_def)
  have "Info_no_data (targets ! i) k \<in>
           set (stdout (lpips_plot pyfloat targets band (header # rows)))"
    using plot_rows_info [OF _ cv] assms(1) by (simp add: lpips_plot_def)
  moreover have "averages k (aggregate pyfloat targets band header rows) ! i = 0"
    using assms(1) cv by (simp add: aggregate_def averaged_rows_averages average_key_def)
  ultimately show ?thesis
    using chart_aggregate by blast
qed

theorem empty_cell_reports_zero_witness:
  "0 < length target_video_names \<and>
   cell_rows decimal_float target_video_names band_20
     (fst (column_indices (hd single_row_table))) (target_video_names ! 0) Loss_band
     (tl single_row_table) = [] \<and>
   chart (lpips_plot decimal_float target_video_names band_20
            (hd single_row_table # tl single_row_table)) =
     Some \<lparr>lpips_0_loss_avg = [0.1, 0, 0, 0, 0, 0, 0, 0],
           lpips_band_loss_avg = [0, 0, 0, 0, 0, 0, 0, 0]\<rparr> \<and>
   Info_no_data (target_video_names ! 0) Loss_band \<in>
     set (stdout (lpips_plot decimal_float target_video_names band_20
            (hd single_row_table # tl single_row_table))) \<and>
   averages Loss_band
     (aggregate decimal_float target_video_names band_20 (hd single_row_table)
        (tl single_row_table)) ! 0 = 0"
proof -
  have a: "0 < length target_video_names"
    by (simp add: target_video_names_def)
  have b: "cell_rows decimal_float target_video_names band_20
     (fst (column_indices (hd single_row_table))) (target_video_names ! 0) Loss_band
     (tl single_row_table) = []"
    by code_simp
  have c: "chart (lpips_plot decimal_float target_video_names band_20
            (hd single_row_table # tl single_row_table)) =
     Some \<lparr>lpips_0_loss_avg = [0.1, 0, 0, 0, 0, 0, 0, 0],
           lpips_band_loss_avg = [0, 0, 0, 0, 0, 0, 0, 0]\<rparr>"
    by code_simp
  show ?thesis
    using empty_cell_reports_zero [OF a b] a b c by blast
qed

text \<open>
  Claim C3 expects the cell (video-1.mp4, second band) of the worked example to be
  missing. The run gives it the number 0, as it does for every cell without rows; the
  list has eight entries, one per video of \<^verbatim>\<open>target_video_names\<close>.
\<close>

theorem spec_table_counterexample:
  "target_video_names ! 1 = ''video-1.mp4'' \<and>
   map_option (\<lambda>plot. lpips_band_loss_avg plot ! 1)
     (chart (generate_lpips_plot decimal_float spec_table)) = Some 0 \<and>
   length target_video_names = 8"
  by code_simp

text \<open>
  Claim C3, amended: on the worked example the run yields 0.10 for (video-0.mp4, 0%), 0.30
  for (video-0.mp4, 20%), 0.15 for (video-1.mp4, 0%) and the number 0 for
  (video-1.mp4, 20%), with a note for that cell; the six other target videos of
  \<^verbatim>\<open>video_loss.py\<close> get 0 in both lists and a note for each of their cells.
\<close>

theorem spec_table_outcome:
  "generate_lpips_plot decimal_float spec_table =
     \<lparr>stdout =
        [Info_no_data ''video-1.mp4'' Loss_band,
         Info_no_data ''video-2.mp4'' Loss_0, Info_no_data ''video-2.mp4'' Loss_band,
         Info_no_data ''video-4.mp4'' Loss_0, Info_no_data ''video-4.mp4'' Loss_band,
         Info_no_data ''video-5.mp4'' Loss_0, Info_no_data ''video-5.mp4'' Loss_band,
         Info_no_data ''video-6.mp4'' Loss_0, Info_no_data ''video-6.mp4'' Loss_band,
         Info_no_data ''video-7.mp4'' Loss_0, Info_no_data ''video-7.mp4'' Loss_band,
         Info_no_data ''video-9.mp4'' Loss_0, Info_no_data ''video-9.mp4'' Loss_band],
      chart = Some \<lparr>lpips_0_loss_avg = [0.10, 0.15, 0, 0, 0, 0, 0, 0],
                     lpips_band_loss_avg = [0.30, 0, 0, 0, 0, 0, 0, 0]\<rparr>\<rparr>"
  by code_simp

text \<open>
  Claim C7: after the two loops the value of every cell that has contributing rows is
  the arithmetic mean of the metric values of exactly these rows, and there is at least
  one of them. They are rows of the input whose group is the cell's video and whose
  condition is the cell's band. What the function plots, when it plots, is this
  aggregate.
\<close>

theorem cell_value_is_mean:
  assumes "i < length targets"
    and "cell_rows pyfloat targets band (fst (column_indices header)) (targets ! i) k rows \<noteq> []"
  shows "averages k (aggregate pyfloat targets band header rows) ! i =
           sum_list (cell_values pyfloat targets band (fst (column_indices header)) (targets ! i) k rows)
           / real (length (cell_rows pyfloat targets band (fst (column_indices header)) (targets ! i) k rows)) \<and>
         cell_values pyfloat targets band (fst (column_indices header)) (targets ! i) k rows =
           map (\<lambda>row. the (metric_of pyfloat (fst (column_indices header)) row))
             (cell_rows pyfloat targets band (fst (column_indices header)) (targets ! i) k rows) \<and>
         (\<forall>row \<in> set (cell_rows pyfloat targets band (fst (column_indices header)) (targets ! i) k rows).
            row \<in> set rows \<and>
            group_of (fst (column_indices header)) row = targets ! i \<and>
            condition_of pyfloat band (fst (column_indices header)) row = Some k \<and>
            metric_of pyfloat (fst (column_indices header)) row \<noteq> None) \<and>
         (\<forall>plot. chart (lpips_plot pyfloat targets band (header # rows)) = Some plot \<longrightarrow>
            plot = aggregate pyfloat targets band header rows)"
proof -
  let ?cols = "fst (column_indices header)"
  let ?vs = "cell_values pyfloat targets band ?cols (targets ! i) k rows"
  have ne: "?vs \<noteq> []"
    using assms(2) by (simp add: cell_values_def)
  have "averages k (aggregate pyfloat targets band header rows) ! i =
        fst (average_key (targets ! i) k ?vs)"
    using assms(1) by (simp add: aggregate_def averaged_rows_averages)
  then have "averages k (aggregate pyfloat targets band header rows) ! i =
        sum_list ?vs / real (length ?vs)"
    using ne by (simp add: average_key_def np_mean_def)
  then show ?thesis
    using chart_aggregate [of pyfloat targets band header rows]
    by (auto simp: cell_values_def cell_rows_def contributes_def)
qed

text \<open>In \<open>mean_table\<close> the second-band cell of video-2.mp4 holds the values 1, 2 and 3 and
  is plotted as 2.\<close>

theorem cell_value_is_mean_witness:
  "chart (lpips_plot decimal_float target_video_names band_20 (hd mean_table # tl mean_table)) =
     Some \<lparr>lpips_0_loss_avg = [0, 0, 7.5, 0, 0, 0, 0, 0],
           lpips_band_loss_avg = [0, 0, 2, 2, 0, 0, 0, 0]\<rparr> \<and>
   target_video_names ! 2 = ''video-2.mp4'' \<and>
   cell_rows decimal_float target_video_names band_20 (fst (column_indices (hd mean_table)))
     (target_video_names ! 2) Loss_band (tl mean_table) =
     [[''1.0'', ''video-2.mp4'', ''0.15''], [''2.0'', '' video-2.mp4 '', ''0.2''],
      [''3.0'', ''video-2.mp4'', ''0.25'']] \<and>
   cell_values decimal_float target_video_names band_20 (fst (column_indices (hd mean_table)))
     (target_video_names ! 2) Loss_band (tl mean_table) = [1, 2, 3] \<and>
   averages Loss_band
     (aggregate decimal_float target_video_names band_20 (hd mean_table) (tl mean_table)) ! 2 =
     sum_list [1, 2, 3] / real 3 \<and>
   aggregate decimal_float target_video_names band_20 (hd mean_table) (tl mean_table) =
     \<lparr>lpips_0_loss_avg = [0, 0, 7.5, 0, 0, 0, 0, 0],
      lpips_band_loss_avg = [0, 0, 2, 2, 0, 0, 0, 0]\<rparr>"
proof -
  let ?cols = "fst (column_indices (hd mean_table))"
  have a: "chart (lpips_plot decimal_float target_video_names band_20 (hd mean_table # tl mean_table)) =
     Some \<lparr>lpips_0_loss_avg = [0, 0, 7.5, 0, 0, 0, 0, 0],
           lpips_band_loss_avg = [0, 0, 2, 2, 0, 0, 0, 0]\<rparr>"
    by code_simp
  have b: "2 < length target_video_names"
    by (simp add: target_video_names_def)
  have c: "cell_rows decimal_float target_video_names band_20 ?cols
     (target_video_names ! 2) Loss_band (tl mean_table) =
     [[''1.0'', ''video-2.mp4'', ''0.15''], [''2.0'', '' video-2.mp4 '', ''0.2''],
      [''3.0'', ''video-2.mp4'', ''0.25'']]"
    by code_simp
  have d: "cell_values decimal_float target_video_names band_20 ?cols
     (target_video_names ! 2) Loss_band (tl mean_table) = [1, 2, 3]"
    by code_simp
  have e: "target_video_names ! 2 = ''video-2.mp4''"
    by (simp add: target_video_names_def)
  have c': "cell_rows decimal_float target_video_names band_20 ?cols
     (target_video_names ! 2) Loss_band (tl mean_table) \<noteq> []"
    unfolding c by simp
  note mean = cell_value_is_mean [OF b c']
  have "averages Loss_band
     (aggregate decimal_float target_video_names band_20 (hd mean_table) (tl mean_table)) ! 2 =
        sum_list (cell_values decimal_float target_video_names band_20 ?cols
            (target_video_names ! 2) Loss_band (tl mean_table))
        / real (length (cell_rows decimal_float target_video_names band_20 ?cols
            (target_video_names ! 2) Loss_band (tl mean_table)))"
    using mean by blast
  then have f: "averages Loss_band
     (aggregate decimal_float target_video_names band_20 (hd mean_table) (tl mean_table)) ! 2 =
     sum_list [1, 2, 3] / real 3"
    unfolding c d by simp
  have g: "aggregate decimal_float target_video_names band_20 (hd mean_table) (tl mean_table) =
     \<lparr>lpips_0_loss_avg = [0, 0, 7.5, 0, 0, 0, 0, 0],
      lpips_band_loss_avg = [0, 0, 2, 2, 0, 0, 0, 0]\<rparr>"
    using mean a by simp
  show ?thesis
    using a c d e f g by blast
qed

subsection \<open>Rows of other groups\<close>

lemma process_rows_append:
  "process_rows pyfloat targets band cols n (xs @ ys) st =
   process_rows pyfloat targets band cols (n + length xs) ys
     (process_rows pyfloat targets band cols n xs st)"
  by (induction xs arbitrary: n st) simp_all

lemma process_row_other_group:
  "other_group targets cols row \<Longrightarrow> process_row pyfloat targets band cols n row st = st"
  by (simp add: other_group_def group_of_def process_row_def row_body_def py_get_def)

text \<open>
  Claim C9: a row whose group field names no target video leaves the state of the row
  loop as it is, whatever \<^verbatim>\<open>float\<close> would say about its other fields: nothing is parsed,
  nothing is printed. Replacing it by any other such row, for instance the same row with
  other metric and loss fields, changes neither the printed lines nor the plot.
\<close>

theorem other_group_row_is_skipped:
  assumes "other_group targets cols row" and "other_group targets cols row'"
  shows "process_row pyfloat targets band cols n row st = st \<and>
         plot_rows pyfloat targets band cols msgs (before @ row # after) =
         plot_rows pyfloat targets band cols msgs (before @ row' # after)"
  using assms
  by (simp add: plot_rows_def averaged_rows_def process_rows_append process_row_other_group)

theorem other_group_row_is_skipped_witness:
  "other_group target_video_names (fst (column_indices (hd other_group_table)))
     [''video-3.mp4'', ''oops'', ''n/a''] \<and>
   decimal_float ''n/a'' = None \<and> decimal_float ''oops'' = None \<and>
   other_group target_video_names (fst (column_indices (hd other_group_table)))
     [''video-3.mp4'', ''0.0'', ''0.5''] \<and>
   plot_rows decimal_float target_video_names band_20
     (fst (column_indices (hd other_group_table))) []
     ([[''video-0.mp4'', ''0.0'', ''0.25'']] @ [''video-3.mp4'', ''oops'', ''n/a'']
        # [[''video-0.mp4'', ''0.2'', ''0.75'']]) =
   plot_rows decimal_float target_video_names band_20
     (fst (column_indices (hd other_group_table))) []
     ([[''video-0.mp4'', ''0.0'', ''0.25'']] @ [''video-3.mp4'', ''0.0'', ''0.5'']
        # [[''video-0.mp4'', ''0.2'', ''0.75'']])"
proof -
  have a: "other_group target_video_names (fst (column_indices (hd other_group_table)))
     [''video-3.mp4'', ''oops'', ''n/a'']"
    by code_simp
  have b: "other_group target_video_names (fst (column_indices (hd other_group_table)))
     [''video-3.mp4'', ''0.0'', ''0.5'']"
    by code_simp
  have c: "decimal_float ''n/a'' = None \<and> decimal_float ''oops'' = None"
    by code_simp
  show ?thesis
    using other_group_row_is_skipped [OF a b] a b c by blast
qed

subsection \<open>Malformed rows\<close>

lemma parsed_data_process_row:
  "parsed_data (process_row pyfloat targets band cols n row st) =
     (if row = [] then parsed_data st
      else case row_body pyfloat targets band cols row (parsed_data st) of
             Inl e \<Rightarrow> parsed_data st | Inr pd \<Rightarrow> pd)"
  by (simp add: process_row_def split: sum.splits row_error.splits)

lemma row_body_malformed:
  "malformed pyfloat cols row \<Longrightarrow>
   row_body pyfloat targets band cols row pd = Inr pd' \<Longrightarrow> pd' = pd"
  by (auto simp: malformed_def has_fields_def metric_of_def loss_of_def row_body_def py_get_def
      to_float_def Let_def split: if_splits sum.splits option.splits)

lemma parsed_data_malformed:
  "malformed pyfloat cols row \<Longrightarrow>
   parsed_data (process_row pyfloat targets band cols n row st) = parsed_data st"
  using row_body_malformed [of pyfloat cols row targets band "parsed_data st"]
  by (auto simp: parsed_data_process_row split: sum.splits)

lemma parsed_data_process_rows_cong:
  "parsed_data st = parsed_data st' \<Longrightarrow>
   parsed_data (process_rows pyfloat targets band cols n rows st) =
   parsed_data (process_rows pyfloat targets band cols n'
     (filter (\<lambda>row. \<not> malformed pyfloat cols row) rows) st')"
proof (induction rows arbitrary: n n' st st')
  case Nil
  then show ?case by simp
next
  case (Cons row rows)
  show ?case
  proof (cases "malformed pyfloat cols row")
    case True
    with Cons.prems have
      "parsed_data (process_row pyfloat targets band cols n row st) = parsed_data st'"
      by (simp add: parsed_data_malformed)
    from Cons.IH [OF this] True show ?thesis by simp
  next
    case False
    from Cons.prems have
      "parsed_data (process_row pyfloat targets band cols n row st) =
       parsed_data (process_row pyfloat targets band cols n' row st')"
      by (auto simp: parsed_data_process_row split: sum.splits)
    from Cons.IH [OF this] False show ?thesis by simp
  qed
qed

lemma row_body_error_iff:
  "row \<noteq> [] \<Longrightarrow>
   (\<exists>e. row_body pyfloat targets band cols row pd = Inl e) \<longleftrightarrow>
   (malformed pyfloat cols row \<and> \<not> other_group targets cols row)"
  by (auto simp: malformed_def other_group_def has_fields_def metric_of_def loss_of_def
      group_of_def row_body_def py_get_def to_float_def Let_def
      split: if_splits sum.splits option.splits)

lemma row_warnings_process_row:
  "length (row_warnings (printed (process_row pyfloat targets band cols n row st))) =
   length (row_warnings (printed st)) +
     (if malformed pyfloat cols row \<and> \<not> other_group targets cols row then 1 else 0)"
proof (cases "row = []")
  case True
  then show ?thesis by (simp add: process_row_def malformed_def)
next
  case False
  show ?thesis
  proof (cases "row_body pyfloat targets band cols row (parsed_data st)")
    case (Inl e)
    then have "malformed pyfloat cols row \<and> \<not> other_group targets cols row"
      using row_body_error_iff [OF False, of pyfloat targets band cols "parsed_data st"] by blast
    with Inl False show ?thesis
      by (cases e) (simp_all add: process_row_def row_warnings_def is_row_warning_def)
  next
    case (Inr pd)
    then have "\<not> (malformed pyfloat cols row \<and> \<not> other_group targets cols row)"
      using row_body_error_iff [OF False, of pyfloat targets band cols "parsed_data st"] by auto
    with Inr False show ?thesis
      by (simp add: process_row_def)
  qed
qed

lemma row_warnings_process_rows:
  "length (row_warnings (printed (process_rows pyfloat targets band cols n rows st))) =
   length (row_warnings (printed st)) +
     length (filter (\<lambda>row. malformed pyfloat cols row \<and> \<not> other_group targets cols row) rows)"
  by (induction rows arbitrary: n st) (simp_all add: row_warnings_process_row)


lemma sum_list_indicator:
  "distinct xs \<Longrightarrow>
   sum_list (map (\<lambda>v. if v = g then 1 else 0) xs) = (if g \<in> set xs then 1 else (0::nat))"
  by (induction xs) auto

lemma contributes_malformed:
  "malformed pyfloat cols row \<Longrightarrow> \<not> contributes pyfloat targets band cols v k row"
  by (auto simp: malformed_def contributes_def condition_of_def)

lemma contributes_well_formed:
  assumes "row \<noteq> []" and "\<not> malformed pyfloat cols row" and "\<not> other_group targets cols row"
    and "condition_of pyfloat band cols row = Some j"
  shows "contributes pyfloat targets band cols v k row \<longleftrightarrow> v = group_of cols row \<and> k = j"
  using assms
  by (auto simp: malformed_def contributes_def other_group_def has_fields_def)

lemma row_count:
  assumes "distinct targets" and "row \<noteq> []" and "\<not> other_group targets cols row"
    and "\<not> malformed pyfloat cols row \<longrightarrow> condition_of pyfloat band cols row \<noteq> None"
  shows "sum_list (map (\<lambda>v. (if contributes pyfloat targets band cols v Loss_0 row then 1 else 0) +
            (if contributes pyfloat targets band cols v Loss_band row then 1 else 0)) targets) =
         (if malformed pyfloat cols row then 0 else (1::nat))"
proof (cases "malformed pyfloat cols row")
  case True
  then show ?thesis
    by (simp add: contributes_malformed)
next
  case False
  with assms(4) obtain j where j: "condition_of pyfloat band cols row = Some j"
    by auto
  have g: "group_of cols row \<in> set targets"
    using False assms(2,3) by (auto simp: malformed_def other_group_def has_fields_def)
  have "(\<lambda>v. (if contributes pyfloat targets band cols v Loss_0 row then 1 else 0) +
            (if contributes pyfloat targets band cols v Loss_band row then 1 else (0::nat))) =
        (\<lambda>v. if v = group_of cols row then 1 else 0)"
    using contributes_well_formed [OF assms(2) False assms(3) j]
    by (cases j) (auto simp: fun_eq_iff)
  then show ?thesis
    using False g sum_list_indicator [OF assms(1), of "group_of cols row"] by simp
qed

lemma cell_count:
  assumes "distinct targets"
    and "\<forall>row \<in> set rows. row \<noteq> [] \<and> \<not> other_group targets cols row \<and>
           (\<not> malformed pyfloat cols row \<longrightarrow> condition_of pyfloat band cols row \<noteq> None)"
  shows "sum_list (map (\<lambda>v. length (cell_rows pyfloat targets band cols v Loss_0 rows) +
            length (cell_rows pyfloat targets band cols v Loss_band rows)) targets) =
         length (filter (\<lambda>row. \<not> malformed pyfloat cols row) rows)"
  using assms(2)
proof (induction rows)
  case Nil
  then show ?case by (simp add: cell_rows_def)
next
  case (Cons row rows)
  have split: "(\<lambda>v. length (cell_rows pyfloat targets band cols v Loss_0 (row # rows)) +
            length (cell_rows pyfloat targets band cols v Loss_band (row # rows))) =
        (\<lambda>v. ((if contributes pyfloat targets band cols v Loss_0 row then 1 else 0) +
            (if contributes pyfloat targets band cols v Loss_band row then 1 else 0)) +
           (length (cell_rows pyfloat targets band cols v Loss_0 rows) +
            length (cell_rows pyfloat targets band cols v Loss_band rows)))"
    by (auto simp: fun_eq_iff cell_rows_def)
  have one: "sum_list (map (\<lambda>v. (if contributes pyfloat targets band cols v Loss_0 row then 1 else 0) +
            (if contributes pyfloat targets band cols v Loss_band row then 1 else 0)) targets) =
         (if malformed pyfloat cols row then 0 else (1::nat))"
    using row_count [OF assms(1), of row cols pyfloat band] Cons.prems by simp
  have rest: "sum_list (map (\<lambda>v. length (cell_rows pyfloat targets band cols v Loss_0 rows) +
            length (cell_rows pyfloat targets band cols v Loss_band rows)) targets) =
         length (filter (\<lambda>row. \<not> malformed pyfloat cols row) rows)"
    using Cons.IH Cons.prems by simp
  show ?case
    using one rest by (simp add: split sum_list_addf)
qed

lemma ingested_process_rows:
  assumes "distinct targets"
    and "\<forall>row \<in> set rows. row \<noteq> [] \<and> \<not> other_group targets cols row \<and>
           (\<not> malformed pyfloat cols row \<longrightarrow> condition_of pyfloat band cols row \<noteq> None)"
  shows "ingested targets (parsed_data (process_rows pyfloat targets band cols n rows
           \<lparr>parsed_data = Map.empty, printed = msgs\<rparr>)) =
         length (filter (\<lambda>row. \<not> malformed pyfloat cols row) rows)"
  using cell_count [OF assms]
  by (simp add: ingested_def lookup_process_rows lookup_empty cell_values_def)

text \<open>
  Claim C5 has every malformed row counted and reported. A malformed row of a video that
  is not a target is passed over before its fields are read and is not reported: the run
  on \<open>other_group_table\<close>, whose second data row has a loss and a metric field that are
  not numbers, prints no warning.
\<close>

theorem other_group_malformed_counterexample:
  "[''video-3.mp4'', ''oops'', ''n/a''] \<in> set (tl other_group_table) \<and>
   malformed decimal_float (fst (column_indices (hd other_group_table)))
     [''video-3.mp4'', ''oops'', ''n/a''] \<and>
   generate_lpips_plot decimal_float other_group_table =
     \<lparr>stdout =
        [Info_no_data ''video-1.mp4'' Loss_0, Info_no_data ''video-1.mp4'' Loss_band,
         Info_no_data ''video-2.mp4'' Loss_0, Info_no_data ''video-2.mp4'' Loss_band,
         Info_no_data ''video-4.mp4'' Loss_0, Info_no_data ''video-4.mp4'' Loss_band,
         Info_no_data ''video-5.mp4'' Loss_0, Info_no_data ''video-5.mp4'' Loss_band,
         Info_no_data ''video-6.mp4'' Loss_0, Info_no_data ''video-6.mp4'' Loss_band,
         Info_no_data ''video-7.mp4'' Loss_0, Info_no_data ''video-7.mp4'' Loss_band,
         Info_no_data ''video-9.mp4'' Loss_0, Info_no_data ''video-9.mp4'' Loss_band],
      chart = Some \<lparr>lpips_0_loss_avg = [0.25, 0, 0, 0, 0, 0, 0, 0],
                     lpips_band_loss_avg = [0.75, 0, 0, 0, 0, 0, 0, 0]\<rparr>\<rparr>"
  by code_simp

text \<open>
  Claim C5, amended: no row stops the row loop. A malformed row is skipped, and it is
  reported with exactly one warning if its group field is missing or names a target
  video; a malformed row of another group is skipped without a warning. The lists
  after the loop are those of the loop run on the other rows alone. In particular, when
  no row is blank or of another group and every well-formed row falls into a band, the
  number of values taken in is the number of rows minus the number of malformed rows,
  and the number of warnings is the number of malformed rows: ten rows, two of them
  malformed, give eight values and two warnings.
\<close>

theorem malformed_rows_do_not_stop_the_run:
  "length (row_warnings (printed (process_rows pyfloat targets band cols n rows st))) =
     length (row_warnings (printed st)) +
     length (filter (\<lambda>row. malformed pyfloat cols row \<and> \<not> other_group targets cols row) rows) \<and>
   parsed_data (process_rows pyfloat targets band cols n rows st) =
     parsed_data (process_rows pyfloat targets band cols n
       (filter (\<lambda>row. \<not> malformed pyfloat cols row) rows) st) \<and>
   (distinct targets \<and>
    (\<forall>row \<in> set rows. row \<noteq> [] \<and> \<not> other_group targets cols row \<and>
       (\<not> malformed pyfloat cols row \<longrightarrow> condition_of pyfloat band cols row \<noteq> None)) \<longrightarrow>
    ingested targets (parsed_data (process_rows pyfloat targets band cols n rows
        \<lparr>parsed_data = Map.empty, printed = []\<rparr>)) =
      length rows - length (filter (malformed pyfloat cols) rows) \<and>
    length (row_warnings (printed (process_rows pyfloat targets band cols n rows
        \<lparr>parsed_data = Map.empty, printed = []\<rparr>))) =
      length (filter (malformed pyfloat cols) rows))"
proof -
  have count: "length (filter (\<lambda>row. \<not> malformed pyfloat cols row) rows) =
        length rows - length (filter (malformed pyfloat cols) rows)"
    using sum_length_filter_compl [of "malformed pyfloat cols" rows] by simp
  have same: "filter (\<lambda>row. malformed pyfloat cols row \<and> \<not> other_group targets cols row) rows =
        filter (malformed pyfloat cols) rows"
    if "\<forall>row \<in> set rows. \<not> other_group targets cols row"
    using that by (auto intro: filter_cong)
  show ?thesis
    using row_warnings_process_rows [of pyfloat targets band cols n rows]
      parsed_data_process_rows_cong [of st st pyfloat targets band cols n rows n]
      ingested_process_rows [of targets rows cols pyfloat band n "[]"] count same
    by (auto simp: row_warnings_def)
qed

theorem malformed_rows_do_not_stop_the_run_witness:
  "length (tl ten_row_table) = 10 \<and>
   filter (malformed decimal_float (fst (column_indices (hd ten_row_table)))) (tl ten_row_table) =
     [[''video-1.mp4'', ''0.0'', ''abc''], [''video-2.mp4'', ''n/a'', ''0.40'']] \<and>
   ingested target_video_names
     (parsed_data (process_rows decimal_float target_video_names band_20
        (fst (column_indices (hd ten_row_table))) 1 (tl ten_row_table)
        \<lparr>parsed_data = Map.empty, printed = []\<rparr>)) = 8 \<and>
   length (row_warnings (printed (process_rows decimal_float target_video_names band_20
        (fst (column_indices (hd ten_row_table))) 1 (tl ten_row_table)
        \<lparr>parsed_data = Map.empty, printed = []\<rparr>))) = 2"
proof -
  let ?cols = "fst (column_indices (hd ten_row_table))"
  have d: "distinct target_video_names"
    by (simp add: target_video_names_def)
  have a: "\<forall>row \<in> set (tl ten_row_table). row \<noteq> [] \<and>
           \<not> other_group target_video_names ?cols row \<and>
           (\<not> malformed decimal_float ?cols row \<longrightarrow>
              condition_of decimal_float band_20 ?cols row \<noteq> None)"
    by code_simp
  have l: "length (tl ten_row_table) = 10"
    by (simp add: ten_row_table_def)
  have m: "filter (malformed decimal_float ?cols) (tl ten_row_table) =
     [[''video-1.mp4'', ''0.0'', ''abc''], [''video-2.mp4'', ''n/a'', ''0.40'']]"
    by code_simp
  have "ingested target_video_names
     (parsed_data (process_rows decimal_float target_video_names band_20 ?cols 1 (tl ten_row_table)
        \<lparr>parsed_data = Map.empty, printed = []\<rparr>)) =
      length (tl ten_row_table) - length (filter (malformed decimal_float ?cols) (tl ten_row_table)) \<and>
    length (row_warnings (printed (process_rows decimal_float target_video_names band_20 ?cols 1
        (tl ten_row_table) \<lparr>parsed_data = Map.empty, printed = []\<rparr>))) =
      length (filter (malformed decimal_float ?cols) (tl ten_row_table))"
    using malformed_rows_do_not_stop_the_run [of decimal_float target_video_names band_20 ?cols 1
        "tl ten_row_table"] d a by blast
  then show ?thesis
    unfolding m l using l m by simp
qed

text \<open>The whole run on \<open>ten_row_table\<close>: the two warnings carry the line numbers 4 and 8
  (\<^verbatim>\<open>row_number+1\<close>), and the eight values are plotted.\<close>

lemma ten_rows_run:
  "generate_lpips_plot decimal_float ten_row_table =
     \<lparr>stdout =
        [Warning_parse 4 ''abc'' [''video-1.mp4'', ''0.0'', ''abc''],
         Warning_parse 8 ''n/a'' [''video-2.mp4'', ''n/a'', ''0.40''],
         Info_no_data ''video-5.mp4'' Loss_0, Info_no_data ''video-5.mp4'' Loss_band,
         Info_no_data ''video-6.mp4'' Loss_0, Info_no_data ''video-6.mp4'' Loss_band,
         Info_no_data ''video-7.mp4'' Loss_0, Info_no_data ''video-7.mp4'' Loss_band,
         Info_no_data ''video-9.mp4'' Loss_0, Info_no_data ''video-9.mp4'' Loss_band],
      chart = Some \<lparr>lpips_0_loss_avg = [0.10, 0.15, 0.20, 0.05, 0, 0, 0, 0],
                     lpips_band_loss_avg = [0.30, 0.35, 0.45, 0.50, 0, 0, 0, 0]\<rparr>\<rparr>"
  by code_simp

subsection \<open>Empty input and input without a header line\<close>

lemma process_row_no_empty_error:
  "Error_csv_empty \<notin> set (printed st) \<Longrightarrow>
   Error_csv_empty \<notin> set (printed (process_row pyfloat targets band cols n row st))"
  by (auto simp: process_row_def split: sum.splits row_error.splits)

lemma process_rows_no_empty_error:
  "Error_csv_empty \<notin> set (printed st) \<Longrightarrow>
   Error_csv_empty \<notin> set (printed (process_rows pyfloat targets band cols n rows st))"
  by (induction rows arbitrary: n st) (simp_all add: process_row_no_empty_error)

lemma average_videos_no_empty_error:
  "Error_csv_empty \<notin> set (printed (fst sp)) \<Longrightarrow>
   Error_csv_empty \<notin> set (printed (fst (average_videos targets sp)))"
  by (auto simp: average_videos_printed average_key_def)

lemma column_indices_no_empty_error:
  "Error_csv_empty \<notin> set (snd (column_indices header))"
  by (auto simp: column_indices_def fallback_messages_def split: option.splits)

lemma plot_rows_no_empty_error:
  assumes "Error_csv_empty \<notin> set msgs"
  shows "Error_csv_empty \<notin> set (stdout (plot_rows pyfloat targets band cols msgs rows))"
proof -
  have "Error_csv_empty \<notin> set (printed (fst (averaged_rows pyfloat targets band cols msgs rows)))"
    unfolding averaged_rows_def
    by (intro average_videos_no_empty_error) (simp add: process_rows_no_empty_error assms)
  then show ?thesis
    by (simp add: plot_rows_def Let_def)
qed

text \<open>
  Claim C6 has every empty or header-less input fail with the empty-input error before
  any aggregation. The function cannot tell a header from a data row: it takes the first
  row, blank or not, as the header. On \<open>headerless_table\<close>, two data rows, and on a single
  blank line it prints the header error and the fallback warning, runs the row loop and
  the averaging loop over what follows the first row, and never prints the empty-input
  error.
\<close>

theorem headerless_table_counterexample:
  "generate_lpips_plot decimal_float headerless_table =
     \<lparr>stdout =
        [Error_header, Found_header [''video-0.mp4'', ''0.0'', ''0.10''], Warning_fallback 6 8 13,
         Warning_columns 2 [''video-1.mp4'', ''0.0'', ''0.15''],
         Info_no_data ''video-0.mp4'' Loss_0, Info_no_data ''video-0.mp4'' Loss_band,
         Info_no_data ''video-1.mp4'' Loss_0, Info_no_data ''video-1.mp4'' Loss_band,
         Info_no_data ''video-2.mp4'' Loss_0, Info_no_data ''video-2.mp4'' Loss_band,
         Info_no_data ''video-4.mp4'' Loss_0, Info_no_data ''video-4.mp4'' Loss_band,
         Info_no_data ''video-5.mp4'' Loss_0, Info_no_data ''video-5.mp4'' Loss_band,
         Info_no_data ''video-6.mp4'' Loss_0, Info_no_data ''video-6.mp4'' Loss_band,
         Info_no_data ''video-7.mp4'' Loss_0, Info_no_data ''video-7.mp4'' Loss_band,
         Info_no_data ''video-9.mp4'' Loss_0, Info_no_data ''video-9.mp4'' Loss_band,
         Error_no_data],
      chart = None\<rparr> \<and>
   generate_lpips_plot decimal_float [[]] =
     \<lparr>stdout =
        [Error_header, Found_header [], Warning_fallback 6 8 13,
         Info_no_data ''video-0.mp4'' Loss_0, Info_no_data ''video-0.mp4'' Loss_band,
         Info_no_data ''video-1.mp4'' Loss_0, Info_no_data ''video-1.mp4'' Loss_band,
         Info_no_data ''video-2.mp4'' Loss_0, Info_no_data ''video-2.mp4'' Loss_band,
         Info_no_data ''video-4.mp4'' Loss_0, Info_no_data ''video-4.mp4'' Loss_band,
         Info_no_data ''video-5.mp4'' Loss_0, Info_no_data ''video-5.mp4'' Loss_band,
         Info_no_data ''video-6.mp4'' Loss_0, Info_no_data ''video-6.mp4'' Loss_band,
         Info_no_data ''video-7.mp4'' Loss_0, Info_no_data ''video-7.mp4'' Loss_band,
         Info_no_data ''video-9.mp4'' Loss_0, Info_no_data ''video-9.mp4'' Loss_band,
         Error_no_data],
      chart = None\<rparr>"
  by code_simp

text \<open>
  Claim C6, amended: for the completely empty input, where the reader yields no row, the
  function prints the empty-input error and returns before any row is read and any
  average is computed. An input that has rows but no header line is not detected: the
  empty-input error is not printed, its first row is read as the header, and the
  averaging loop runs, so that every cell of a target video either has contributing
  rows among the rows that follow or gets its note.
\<close>

theorem only_an_empty_input_aborts:
  "lpips_plot pyfloat targets band [] = \<lparr>stdout = [Error_csv_empty], chart = None\<rparr> \<and>
   Error_csv_empty \<notin> set (stdout (lpips_plot pyfloat targets band (first_row # rows))) \<and>
   (\<forall>v \<in> set targets.
      Info_no_data v k \<in> set (stdout (lpips_plot pyfloat targets band (first_row # rows))) \<or>
      cell_rows pyfloat targets band (fst (column_indices first_row)) v k rows \<noteq> [])"
proof -
  have "Info_no_data v k \<in> set (stdout (lpips_plot pyfloat targets band (first_row # rows)))"
    if "v \<in> set targets"
      and "cell_rows pyfloat targets band (fst (column_indices first_row)) v k rows = []" for v
    using plot_rows_info [OF that(1), of pyfloat band "fst (column_indices first_row)" k rows] that(2)
    by (simp add: lpips_plot_def cell_values_def)
  then show ?thesis
    using plot_rows_no_empty_error [OF column_indices_no_empty_error]
    by (auto simp: lpips_plot_def)
qed

theorem only_an_empty_input_aborts_witness:
  "Error_csv_empty \<notin> set (stdout (lpips_plot decimal_float target_video_names band_20
       (hd headerless_table # tl headerless_table))) \<and>
   ''video-0.mp4'' \<in> set target_video_names \<and>
   cell_rows decimal_float target_video_names band_20 (fst (column_indices (hd headerless_table)))
     ''video-0.mp4'' Loss_0 (tl headerless_table) = [] \<and>
   Info_no_data ''video-0.mp4'' Loss_0 \<in> set (stdout (lpips_plot decimal_float target_video_names band_20
       (hd headerless_table # tl headerless_table)))"
proof -
  have a: "''video-0.mp4'' \<in> set target_video_names"
    by (simp add: target_video_names_def)
  have b: "cell_rows decimal_float target_video_names band_20
     (fst (column_indices (hd headerless_table))) ''video-0.mp4'' Loss_0 (tl headerless_table) = []"
    by code_simp
  show ?thesis
    using only_an_empty_input_aborts [of decimal_float target_video_names band_20
        "hd headerless_table" "tl headerless_table" Loss_0] a b
    by blast
qed

subsection \<open>Running twice\<close>








end
